theory Spec2Isabelle
  imports Main
begin

section \<open>JavaScript values\<close>

text \<open>
  The three files of the repository are variants of one Express application:
  \<^verbatim>\<open>server.js\<close> (the \<^verbatim>\<open>request\<close> library, no session), \<^verbatim>\<open>part_001\<close> (the
  \<^verbatim>\<open>request\<close> library with \<^verbatim>\<open>express-session\<close>) and \<^verbatim>\<open>part_000\<close>
  (\<^verbatim>\<open>node-fetch\<close> with \<^verbatim>\<open>express-session\<close>). Each route handler is embedded
  once per file, under the name of the route and the file.

  A string is a list of code units. The value that \<^verbatim>\<open>JSON.parse\<close> returns is a
  \<open>json\<close>; a number is kept as the text that JavaScript's \<^verbatim>\<open>String(n)\<close> gives for it
  (\<open>JNum ''1209600''\<close>), since the handlers only test numbers for truth and concatenate
  them into strings. A JavaScript value that may be \<^verbatim>\<open>undefined\<close> is a \<open>json option\<close>,
  with \<open>None\<close> for \<^verbatim>\<open>undefined\<close>.
\<close>

datatype json =
    JNull
  | JBool bool
  | JNum string
  | JStr string
  | JArr "json list"
  | JObj "(string \<times> json) list"

type_synonym jsval = "json option"

datatype exn = ReferenceError | SyntaxError | TypeError | FetchError | HeadersSent

text \<open>JavaScript's truth test, as \<^verbatim>\<open>if (x)\<close> and \<^verbatim>\<open>!x\<close> apply it.\<close>

fun truthy :: "json \<Rightarrow> bool" where
  "truthy JNull = False"
| "truthy (JBool b) = b"
| "truthy (JNum r) = (r \<noteq> ''0'')"
| "truthy (JStr s) = (s \<noteq> [])"
| "truthy (JArr xs) = True"
| "truthy (JObj kvs) = True"

fun truthy_val :: "jsval \<Rightarrow> bool" where
  "truthy_val None = False"
| "truthy_val (Some j) = truthy j"

text \<open>The operator \<^verbatim>\<open>!\<close> on a value.\<close>

definition js_not :: "jsval \<Rightarrow> bool" where
  "js_not v = (\<not> truthy_val v)"

text \<open>
  Reading a property \<^verbatim>\<open>j.k\<close> of a value that is not \<^verbatim>\<open>null\<close>: an object gives the
  value of the key (the last one when the text repeated the key), anything else gives
  \<^verbatim>\<open>undefined\<close> for the keys the handlers read.
\<close>

fun get_prop :: "json \<Rightarrow> string \<Rightarrow> jsval" where
  "get_prop (JObj kvs) k = map_of (rev kvs) k"
| "get_prop _ k = None"

text \<open>Reading a property of any parsed value: \<^verbatim>\<open>null.k\<close> raises a TypeError.\<close>

fun member :: "json \<Rightarrow> string \<Rightarrow> exn + jsval" where
  "member JNull k = Inl TypeError"
| "member j k = Inr (get_prop j k)"

text \<open>
  The conversion to a string that \<^verbatim>\<open>+\<close> applies to a value: an array joins its
  elements with commas, \<^verbatim>\<open>null\<close> elements giving the empty string.
\<close>

fun to_string :: "json \<Rightarrow> string" and join_elems :: "json list \<Rightarrow> string" where
  "to_string JNull = ''null''"
| "to_string (JBool b) = (if b then ''true'' else ''false'')"
| "to_string (JNum r) = r"
| "to_string (JStr s) = s"
| "to_string (JArr xs) = join_elems xs"
| "to_string (JObj kvs) = ''[object Object]''"
| "join_elems [] = []"
| "join_elems [x] = (if x = JNull then [] else to_string x)"
| "join_elems (x # y # ys) = (if x = JNull then [] else to_string x) @ '','' @ join_elems (y # ys)"

fun str_of :: "jsval \<Rightarrow> string" where
  "str_of None = ''undefined''"
| "str_of (Some j) = to_string j"

section \<open>Requests, replies and what a handler does\<close>

text \<open>
  A parameter of the query, as the query parser of Express gives it: a string
  (\<^verbatim>\<open>state=5f2b\<close>), an array (\<^verbatim>\<open>state[]=5f2b\<close>, or the parameter repeated) or an
  object (\<^verbatim>\<open>state[a]=5f2b\<close>) of such values.
\<close>

datatype qval = QStr string | QArr "qval list" | QObj "(string \<times> qval) list"

text \<open>The truth test on a parameter that may be absent, and the operator \<^verbatim>\<open>!\<close> on it.\<close>

fun truthy_q :: "qval \<Rightarrow> bool" where
  "truthy_q (QStr s) = (s \<noteq> [])"
| "truthy_q (QArr xs) = True"
| "truthy_q (QObj kvs) = True"

fun truthy_param :: "qval option \<Rightarrow> bool" where
  "truthy_param None = False"
| "truthy_param (Some v) = truthy_q v"

definition param_not :: "qval option \<Rightarrow> bool" where
  "param_not v = (\<not> truthy_param v)"

text \<open>
  The conversion of a parameter to a string: an array joins the texts of its elements
  with commas, an object gives \<^verbatim>\<open>[object Object]\<close>.
\<close>

fun text_of :: "qval \<Rightarrow> string" and join_texts :: "qval list \<Rightarrow> string" where
  "text_of (QStr s) = s"
| "text_of (QArr xs) = join_texts xs"
| "text_of (QObj kvs) = ''[object Object]''"
| "join_texts [] = []"
| "join_texts [x] = text_of x"
| "join_texts (x # y # ys) = text_of x @ '','' @ join_texts (y # ys)"

text \<open>
  The loose comparison \<^verbatim>\<open>==\<close> of a parameter with a string, which the handlers use
  (\<^verbatim>\<open>!=\<close> is its negation): an absent parameter equals no string, an array or an
  object is compared by its text.
\<close>

fun loose_eq :: "qval option \<Rightarrow> string \<Rightarrow> bool" where
  "loose_eq None s = False"
| "loose_eq (Some v) s = (text_of v = s)"

text \<open>The query of a callback request, as \<^verbatim>\<open>req.query\<close> holds it.\<close>

record query =
  query_error :: "qval option"
  query_code :: "qval option"
  query_state :: "qval option"

text \<open>
  The session record of \<^verbatim>\<open>express-session\<close>; the handlers use one field. A handler
  takes the record that the store holds for the caller and returns the one it holds
  when the request is over.
\<close>

record session =
  token :: jsval

text \<open>
  The constants that the process computes when it starts. part_001 and server.js read
  the first three from the environment; part_000 reads \<^verbatim>\<open>clientId\<close> and
  \<^verbatim>\<open>redirectURI\<close> back from the query of its authorization URL.
\<close>

record config =
  clientId :: string
  clientSecret :: string
  redirectURI :: string
  state :: string

text \<open>
  \<^verbatim>\<open>process.env.STATE || crypto.randomBytes(64).toString("hex")\<close>, given the variable
  of the environment and the text of the random bytes.
\<close>

definition initial_state :: "string option \<Rightarrow> string \<Rightarrow> string" where
  "initial_state env_STATE random_hex =
     (case env_STATE of
        None \<Rightarrow> random_hex
      | Some s \<Rightarrow> if s \<noteq> [] then s else random_hex)"

definition config_part000 :: "string \<Rightarrow> string \<Rightarrow> config" where
  "config_part000 secret st =
     \<lparr>clientId = ''C97c955d459b1195dd914456c56d7193b3b9db2f96e55226d1bb875c6dc40c16a'',
      clientSecret = secret,
      redirectURI = ''http://localhost:8080/oauth'',
      state = st\<rparr>"

text \<open>
  An outgoing HTTP call: the options object handed to \<^verbatim>\<open>request\<close>, or the URL and
  options handed to \<^verbatim>\<open>fetch\<close>. \<open>http_method\<close> is the field \<^verbatim>\<open>method\<close> of the options,
  \<open>form\<close> the form body, as its list of pairs: the values of the object \<^verbatim>\<open>form\<close>
  handed to \<^verbatim>\<open>request\<close>, the strings of the \<^verbatim>\<open>URLSearchParams\<close> handed to
  \<^verbatim>\<open>fetch\<close>.
\<close>

record call =
  http_method :: string
  url :: string
  headers :: "(string \<times> string) list"
  form :: "(string \<times> qval) list option"

text \<open>
  What comes back: no response at all (the \<^verbatim>\<open>error\<close> argument of the callback of
  \<^verbatim>\<open>request\<close>, a rejected \<^verbatim>\<open>fetch\<close>), or a status code and a body. The body is given
  by what \<^verbatim>\<open>JSON.parse\<close> makes of it: \<open>None\<close> when its text is not JSON and the
  parser throws, the parsed value otherwise.
\<close>

datatype reply = Failed | Response nat "json option"

type_synonym net = "call \<Rightarrow> reply"

text \<open>
  The body handed to \<^verbatim>\<open>res.send\<close>: a string, or an EJS template (by its file)
  applied to its data.
\<close>

datatype page = Html string | Template string "(string \<times> jsval) list"

text \<open>
  A handler's effects, in the order it performs them. \<open>Throw\<close> is an exception that
  nothing in the handler catches; it ends the trace. Calls of \<^verbatim>\<open>debug\<close> are left out.
\<close>

datatype event =
    Send page
  | Redirect string
  | Request call
  | ConsoleLog "jsval list"
  | Destroy
  | Throw exn

fun requests_of :: "event list \<Rightarrow> call list" where
  "requests_of [] = []"
| "requests_of (Request c # es) = c # requests_of es"
| "requests_of (e # es) = requests_of es"

fun responses_of :: "event list \<Rightarrow> event list" where
  "responses_of [] = []"
| "responses_of (Send p # es) = Send p # responses_of es"
| "responses_of (Redirect u # es) = Redirect u # responses_of es"
| "responses_of (e # es) = responses_of es"

text \<open>
  \<^verbatim>\<open>express-session\<close> (with \<^verbatim>\<open>resave: false\<close>) writes the session of the request
  back to the store when the response ends. A request that sends no response, because an
  exception left the handler first, leaves the store as it was: \<open>stored\<close> is the record
  before the request, \<open>sess\<close> the one the handler has assigned to.
\<close>

definition session_after :: "session \<Rightarrow> event list \<Rightarrow> session \<Rightarrow> session" where
  "session_after stored es sess = (if responses_of es = [] then stored else sess)"

section \<open>The pages of the handlers\<close>

definition could_not_complete :: "string \<Rightarrow> string" where
  "could_not_complete msg = ''<h1>OAuth Integration could not complete</h1><p>'' @ msg @ ''</p>''"

definition page_declined :: string where
  "page_declined = could_not_complete ''User declined data access request, bye.''"

definition page_invalid_scope :: string where
  "page_invalid_scope = could_not_complete
     ''This application requested an invalid scope. Make sure your Integration contains all scopes being requested by the app, bye.''"

definition page_server_error :: string where
  "page_server_error = could_not_complete ''Webex sent a server error, bye.''"

definition page_not_implemented :: string where
  "page_not_implemented = could_not_complete ''Error case not implemented, bye.''"

definition page_unexpected_parameters :: string where
  "page_unexpected_parameters = could_not_complete ''Unexpected query parameters, ignoring...''"

definition page_state_mismatch :: string where
  "page_state_mismatch = could_not_complete
     ''State in response does does not match the one in the request, aborting...''"

definition page_no_access_token :: string where
  "page_no_access_token = could_not_complete
     ''Sorry, could not retrieve your access token. Try again...''"

definition page_bad_request :: "string \<Rightarrow> string" where
  "page_bad_request message = could_not_complete (''Bad request. <br/>'' @ message)"

definition page_authentication_error :: string where
  "page_authentication_error = could_not_complete
     ''OAuth authentication error. Ask the service contact to check the secret.''"

definition page_could_not_parse :: string where
  "page_could_not_parse = could_not_complete ''Could not parse API access token. Try again...''"

definition page_account_details :: string where
  "page_account_details = could_not_complete
     ''Sorry, could not retrieve your Webex account details.''"

definition page_rooms :: string where
  "page_rooms = could_not_complete ''Sorry, could not retrieve your Webex rooms.''"

section \<open>part_001: request and express-session\<close>

text \<open>\<^verbatim>\<open>getUserInfo(access_token, res)\<close> and the callback of its request.\<close>

definition people_me_options :: "jsval \<Rightarrow> call" where
  "people_me_options access_token =
     \<lparr>http_method = ''GET'', url = ''https://webexapis.com/v1/people/me'',
      headers = [(''authorization'', ''Bearer '' @ str_of access_token)], form = None\<rparr>"

definition getUserInfo_callback :: "reply \<Rightarrow> event list" where
  "getUserInfo_callback r =
     (case r of
        Failed \<Rightarrow> [Send (Html page_account_details)]
      | Response statusCode body \<Rightarrow>
          if statusCode \<noteq> 200 then [Send (Html page_account_details)]
          else (case body of
                  None \<Rightarrow> [Throw SyntaxError]
                | Some json \<Rightarrow>
                    if js_not (Some json) \<or> js_not (get_prop json ''displayName'')
                    then [Send (Html page_account_details)]
                    else [Send (Template ''/www/display-name.ejs''
                                  [(''displayName'', get_prop json ''displayName'')])]))"

definition getUserInfo_part001 :: "net \<Rightarrow> jsval \<Rightarrow> event list" where
  "getUserInfo_part001 nt access_token =
     Request (people_me_options access_token)
       # getUserInfo_callback (nt (people_me_options access_token))"

text \<open>The handler of \<^verbatim>\<open>/oauth\<close>: its checks, the token request and the callback.\<close>

definition access_token_options :: "config \<Rightarrow> qval \<Rightarrow> call" where
  "access_token_options cfg c =
     \<lparr>http_method = ''POST'', url = ''https://webexapis.com/v1/access_token'',
      headers = [(''content-type'', ''application/x-www-form-urlencoded'')],
      form = Some [(''grant_type'', QStr ''authorization_code''),
                   (''client_id'', QStr (clientId cfg)),
                   (''client_secret'', QStr (clientSecret cfg)),
                   (''code'', c),
                   (''redirect_uri'', QStr (redirectURI cfg))]\<rparr>"

definition token_fields_missing :: "json \<Rightarrow> bool" where
  "token_fields_missing json =
     (js_not (Some json) \<or> js_not (get_prop json ''access_token'')
      \<or> js_not (get_prop json ''expires_in'') \<or> js_not (get_prop json ''refresh_token'')
      \<or> js_not (get_prop json ''refresh_token_expires_in''))"

definition bad_request_case :: "json option \<Rightarrow> event list" where
  "bad_request_case body =
     (case body of
        None \<Rightarrow> [Throw SyntaxError]
      | Some responsePayload \<Rightarrow>
          (case member responsePayload ''message'' of
             Inl e \<Rightarrow> [Throw e]
           | Inr message \<Rightarrow> [Send (Html (page_bad_request (str_of message)))]))"

definition status_not_200 :: "nat \<Rightarrow> json option \<Rightarrow> event list" where
  "status_not_200 statusCode body =
     (if statusCode = 400 then bad_request_case body
      else if statusCode = 401 then [Send (Html page_authentication_error)]
      else [Send (Html page_no_access_token)])"

definition oauth_callback_part001 :: "net \<Rightarrow> session \<Rightarrow> reply \<Rightarrow> event list \<times> session" where
  "oauth_callback_part001 nt sess r =
     (case r of
        Failed \<Rightarrow> ([Send (Html page_no_access_token)], sess)
      | Response statusCode body \<Rightarrow>
          if statusCode \<noteq> 200 then (status_not_200 statusCode body, sess)
          else (case body of
                  None \<Rightarrow> ([Throw SyntaxError], sess)
                | Some json \<Rightarrow>
                    if token_fields_missing json
                    then ([Send (Html page_could_not_parse)], sess)
                    else (getUserInfo_part001 nt (get_prop json ''access_token''),
                          session_after sess
                            (getUserInfo_part001 nt (get_prop json ''access_token''))
                            (sess\<lparr>token := get_prop json ''access_token''\<rparr>))))"

text \<open>The chain of comparisons \<^verbatim>\<open>req.query.error == "..."\<close> and the page each one sends.\<close>

definition error_page :: "qval option \<Rightarrow> string" where
  "error_page e =
     (if loose_eq e ''access_denied'' then page_declined
      else if loose_eq e ''invalid_scope'' then page_invalid_scope
      else if loose_eq e ''server_error'' then page_server_error
      else page_not_implemented)"

definition oauth_part001 :: "config \<Rightarrow> net \<Rightarrow> query \<Rightarrow> session \<Rightarrow> event list \<times> session" where
  "oauth_part001 cfg nt q sess =
     (if truthy_param (query_error q) then ([Send (Html (error_page (query_error q)))], sess)
      else (case query_code q of
              None \<Rightarrow> ([Send (Html page_unexpected_parameters)], sess)
            | Some code \<Rightarrow>
                if param_not (Some code) \<or> param_not (query_state q)
                then ([Send (Html page_unexpected_parameters)], sess)
                else if \<not> loose_eq (query_state q) (state cfg)
                then ([Send (Html page_state_mismatch)], sess)
                else (case oauth_callback_part001 nt sess (nt (access_token_options cfg code)) of
                        (es, sess') \<Rightarrow> (Request (access_token_options cfg code) # es, sess'))))"

text \<open>
  \<^verbatim>\<open>/listrooms\<close>: the token is read from the session and only logged about; the request
  is sent in either case.
\<close>

definition rooms_options :: "jsval \<Rightarrow> call" where
  "rooms_options tok =
     \<lparr>http_method = ''GET'', url = ''https://webexapis.com/v1/rooms'',
      headers = [(''authorization'', ''Bearer '' @ str_of tok)], form = None\<rparr>"

definition listrooms_callback :: "reply \<Rightarrow> event list" where
  "listrooms_callback r =
     (case r of
        Failed \<Rightarrow> [Send (Html page_account_details)]
      | Response statusCode body \<Rightarrow>
          if statusCode \<noteq> 200 then [Send (Html page_account_details)]
          else (case body of
                  None \<Rightarrow> [Throw SyntaxError]
                | Some json \<Rightarrow>
                    ConsoleLog [Some json]
                      # (if js_not (Some json) \<or> js_not (get_prop json ''items'')
                         then [Send (Html page_rooms)]
                         else [Send (Template ''/www/list-rooms.ejs''
                                       [(''rooms'', get_prop json ''items'')])])))"

definition listrooms_part001 :: "net \<Rightarrow> session \<Rightarrow> event list" where
  "listrooms_part001 nt sess =
     ConsoleLog (if token sess = None
                 then [Some (JStr ''session token available: ''), token sess]
                 else [Some (JStr ''Access token not in session variable''), token sess])
       # Request (rooms_options (token sess))
       # listrooms_callback (nt (rooms_options (token sess)))"

text \<open>
  \<^verbatim>\<open>s.substring(from, to)\<close>: both indices are clamped to the string and swapped when
  out of order.
\<close>

definition substring :: "string \<Rightarrow> int \<Rightarrow> int \<Rightarrow> string" where
  "substring s from to =
     (let n = int (length s);
          a = min (max from 0) n;
          b = min (max to 0) n
      in take (nat (max a b - min a b)) (drop (nat (min a b)) s))"

text \<open>
  \<^verbatim>\<open>/logout\<close>: the root URL is computed and logged, the redirect carries the token,
  the session is destroyed. The result is the session record that is left: none.
\<close>

definition logout_part001 :: "config \<Rightarrow> session \<Rightarrow> event list \<times> session option" where
  "logout_part001 cfg sess =
     (let rootURL = substring (redirectURI cfg) 0 (int (length (redirectURI cfg)) - 5)
      in ([ConsoleLog [Some (JStr (''rootURL is '' @ rootURL))],
           Redirect (''https://idbroker.webex.com/idb/oauth2/v1/logout?token='' @ str_of (token sess)),
           Destroy],
          None))"

text \<open>The home page: compiled once from the authorization URL, then served.\<close>

definition initiateURL_part001 :: "config \<Rightarrow> string" where
  "initiateURL_part001 cfg =
     ''https://webexapis.com/v1/authorize?client_id=C909b987b64167258774e532d595702ef864a35f7614678dbe4046056daf67d63&response_type=code&redirect_uri=http%3A%2F%2Flocalhost%3A8080%2Foauth&scope=spark%3Akms%20spark%3Apeople_read%20spark%3Arooms_read%20spark%3Arooms_write&state=''
       @ state cfg"

definition compiled_part001 :: "config \<Rightarrow> page" where
  "compiled_part001 cfg = Template ''/www/index.ejs'' [(''link'', Some (JStr (initiateURL_part001 cfg)))]"

definition index_html_part001 :: "config \<Rightarrow> session \<Rightarrow> event list" where
  "index_html_part001 cfg sess = [Send (compiled_part001 cfg)]"

definition root_part001 :: "config \<Rightarrow> session \<Rightarrow> event list" where
  "root_part001 cfg sess = [Redirect ''/index.html'']"

section \<open>part_000: node-fetch and express-session\<close>

text \<open>
  Here \<^verbatim>\<open>fetch\<close> and \<^verbatim>\<open>response.json()\<close> are awaited with nothing around them: a
  failed call and a body that is not JSON both reject with a FetchError, which leaves
  the handler. The status code is never read. The values of the form are the strings
  that \<^verbatim>\<open>URLSearchParams\<close> makes of them.
\<close>

definition getUserInfo_part000 :: "net \<Rightarrow> jsval \<Rightarrow> event list" where
  "getUserInfo_part000 nt access_token =
     Request (people_me_options access_token)
       # (case nt (people_me_options access_token) of
            Failed \<Rightarrow> [Throw FetchError]
          | Response status body \<Rightarrow>
              (case body of
                 None \<Rightarrow> [Throw FetchError]
               | Some data \<Rightarrow>
                   (case member data ''displayName'' of
                      Inl e \<Rightarrow> [Throw e]
                    | Inr displayName \<Rightarrow>
                        [Send (Template ''/www/display-name.ejs'' [(''displayName'', displayName)])])))"

definition access_token_fetch :: "config \<Rightarrow> qval \<Rightarrow> call" where
  "access_token_fetch cfg c =
     \<lparr>http_method = ''POST'', url = ''https://webexapis.com/v1/access_token'',
      headers = [(''Content-type'', ''application/x-www-form-urlencoded'')],
      form = Some [(''grant_type'', QStr ''authorization_code''),
                   (''client_id'', QStr (clientId cfg)),
                   (''client_secret'', QStr (clientSecret cfg)),
                   (''code'', QStr (text_of c)),
                   (''redirect_uri'', QStr (redirectURI cfg))]\<rparr>"

definition oauth_response_part000 :: "net \<Rightarrow> session \<Rightarrow> reply \<Rightarrow> event list \<times> session" where
  "oauth_response_part000 nt sess r =
     (case r of
        Failed \<Rightarrow> ([Throw FetchError], sess)
      | Response status body \<Rightarrow>
          (case body of
             None \<Rightarrow> ([Throw FetchError], sess)
           | Some data \<Rightarrow>
               (case member data ''access_token'' of
                  Inl e \<Rightarrow> ([ConsoleLog [Some data], Throw e], sess)
                | Inr access_token \<Rightarrow>
                    (ConsoleLog [Some data] # getUserInfo_part000 nt access_token,
                     session_after sess (getUserInfo_part000 nt access_token)
                       (sess\<lparr>token := access_token\<rparr>)))))"

definition oauth_part000 :: "config \<Rightarrow> net \<Rightarrow> query \<Rightarrow> session \<Rightarrow> event list \<times> session" where
  "oauth_part000 cfg nt q sess =
     (if truthy_param (query_error q) then ([Send (Html (error_page (query_error q)))], sess)
      else (case query_code q of
              None \<Rightarrow> ([Send (Html page_unexpected_parameters)], sess)
            | Some code \<Rightarrow>
                if param_not (Some code) \<or> param_not (query_state q)
                then ([Send (Html page_unexpected_parameters)], sess)
                else if \<not> loose_eq (query_state q) (state cfg)
                then ([Send (Html page_state_mismatch)], sess)
                else (case oauth_response_part000 nt sess (nt (access_token_fetch cfg code)) of
                        (es, sess') \<Rightarrow> (Request (access_token_fetch cfg code) # es, sess'))))"

text \<open>
  \<^verbatim>\<open>/listrooms\<close>: without a token (\<^verbatim>\<open>token == undefined\<close>, which \<^verbatim>\<open>null\<close> satisfies
  too) the handler sends the text \<^verbatim>\<open>/\<close> and goes on. Its second \<^verbatim>\<open>res.send\<close>
  then finds the headers sent already and raises \<^verbatim>\<open>ERR_HTTP_HEADERS_SENT\<close>.
\<close>

definition listrooms_part000 :: "net \<Rightarrow> session \<Rightarrow> event list" where
  "listrooms_part000 nt sess =
     (if token sess = None \<or> token sess = Some JNull
      then [ConsoleLog [Some (JStr ''Access token not in session variable, redirecting to home page.'')],
            Send (Html ''/'')]
      else [])
     @ Request (rooms_options (token sess))
     # (case nt (rooms_options (token sess)) of
          Failed \<Rightarrow> [Throw FetchError]
        | Response status body \<Rightarrow>
            (case body of
               None \<Rightarrow> [Throw FetchError]
             | Some data \<Rightarrow>
                 (case member data ''items'' of
                    Inl e \<Rightarrow> [ConsoleLog [Some data], Throw e]
                  | Inr items \<Rightarrow>
                      [ConsoleLog [Some data],
                       if token sess = None \<or> token sess = Some JNull
                       then Throw HeadersSent
                       else Send (Template ''/www/list-rooms.ejs'' [(''rooms'', items)])])))"

definition logout_part000 :: "config \<Rightarrow> session \<Rightarrow> event list \<times> session option" where
  "logout_part000 cfg sess =
     (let rootURL = substring (redirectURI cfg) 0 (int (length (redirectURI cfg)) - 5)
      in ([ConsoleLog [Some (JStr (''rootURL is '' @ rootURL))],
           Redirect (''https://idbroker.webex.com/idb/oauth2/v1/logout?token='' @ str_of (token sess)),
           Destroy],
          None))"

definition initiateURL_part000 :: "config \<Rightarrow> string" where
  "initiateURL_part000 cfg =
     ''https://webexapis.com/v1/authorize?client_id=C97c955d459b1195dd914456c56d7193b3b9db2f96e55226d1bb875c6dc40c16a&response_type=code&redirect_uri=http%3A%2F%2Flocalhost%3A8080%2Foauth&scope=spark%3Akms%20spark%3Apeople_read%20spark%3Arooms_read&state=''
       @ state cfg"

definition compiled_part000 :: "config \<Rightarrow> page" where
  "compiled_part000 cfg = Template ''/www/index.ejs'' [(''link'', Some (JStr (initiateURL_part000 cfg)))]"

definition index_html_part000 :: "config \<Rightarrow> session \<Rightarrow> event list" where
  "index_html_part000 cfg sess =
     [ConsoleLog (if token sess \<noteq> None \<and> token sess \<noteq> Some JNull
                  then [Some (JStr ''session token available: ''), token sess]
                  else [Some (JStr ''Access token not in session variable, redirecting to home page'')]),
      Send (compiled_part000 cfg)]"

definition root_part000 :: "config \<Rightarrow> session \<Rightarrow> event list" where
  "root_part000 cfg sess = [Redirect ''/index.html'']"

section \<open>server.js: request, no session\<close>

text \<open>
  \<^verbatim>\<open>oauthFlowCompleted(access_token, res)\<close> is the \<^verbatim>\<open>getUserInfo\<close> of part_001 under
  another name.
\<close>

definition oauthFlowCompleted :: "net \<Rightarrow> jsval \<Rightarrow> event list" where
  "oauthFlowCompleted nt access_token =
     Request (people_me_options access_token)
       # getUserInfo_callback (nt (people_me_options access_token))"

definition oauth_callback_server :: "net \<Rightarrow> reply \<Rightarrow> event list" where
  "oauth_callback_server nt r =
     (case r of
        Failed \<Rightarrow> [Send (Html page_no_access_token)]
      | Response statusCode body \<Rightarrow>
          if statusCode \<noteq> 200 then status_not_200 statusCode body
          else (case body of
                  None \<Rightarrow> [Throw SyntaxError]
                | Some json \<Rightarrow>
                    if token_fields_missing json then [Send (Html page_could_not_parse)]
                    else oauthFlowCompleted nt (get_prop json ''access_token'')))"

text \<open>
  server.js reads the identifier \<^verbatim>\<open>state\<close> in its comparison and declares it
  nowhere: evaluating it raises a ReferenceError.
\<close>

definition state_server :: "exn + string" where
  "state_server = Inl ReferenceError"

definition oauth_server :: "config \<Rightarrow> net \<Rightarrow> query \<Rightarrow> event list" where
  "oauth_server cfg nt q =
     (if truthy_param (query_error q) then [Send (Html (error_page (query_error q)))]
      else (case query_code q of
              None \<Rightarrow> [Send (Html page_unexpected_parameters)]
            | Some code \<Rightarrow>
                if param_not (Some code) \<or> param_not (query_state q)
                then [Send (Html page_unexpected_parameters)]
                else (case state_server of
                        Inl e \<Rightarrow> [Throw e]
                      | Inr st \<Rightarrow>
                          if \<not> loose_eq (query_state q) st then [Send (Html page_state_mismatch)]
                          else Request (access_token_options cfg code)
                                 # oauth_callback_server nt (nt (access_token_options cfg code)))))"

text \<open>
  \<^verbatim>\<open>encodeURIComponent\<close> on code units below 256: the unreserved characters stay, any
  other is written as the bytes of its UTF-8 form, each as \<^verbatim>\<open>%XX\<close>.
\<close>

definition unreserved :: "char \<Rightarrow> bool" where
  "unreserved c =
     (c \<in> set ''ABCDEFGHIJKLMNOPQRSTUVWXYZabcdefghijklmnopqrstuvwxyz0123456789-_.!~*()''
      \<or> c = CHR 0x27)"

definition percent :: "nat \<Rightarrow> string" where
  "percent b = [CHR ''%'', ''0123456789ABCDEF'' ! (b div 16), ''0123456789ABCDEF'' ! (b mod 16)]"

definition encode_unit :: "char \<Rightarrow> string" where
  "encode_unit c =
     (if unreserved c then [c]
      else if (of_char c :: nat) < 128 then percent (of_char c)
      else percent (192 + of_char c div 64) @ percent (128 + of_char c mod 64))"

definition encodeURIComponent :: "string \<Rightarrow> string" where
  "encodeURIComponent s = concat (map encode_unit s)"

definition getLogoutURL :: "jsval \<Rightarrow> string \<Rightarrow> string" where
  "getLogoutURL tok redirectURL =
     (let rootURL = substring redirectURL 0 (int (length redirectURL) - 5)
      in ''https://idbroker.webex.com/idb/oauth2/v1/logout?''
           @ ''goto='' @ encodeURIComponent rootURL
           @ ''&token='' @ str_of tok)"

section \<open>Inputs for the examples\<close>

text \<open>
  A provider that answers the token request with one reply and every other call with
  another, and the configuration of the README: the application on port 8080.
\<close>

definition provider :: "reply \<Rightarrow> reply \<Rightarrow> net" where
  "provider token_reply resource_reply c =
     (if http_method c = ''POST'' then token_reply else resource_reply)"

definition example_config :: config where
  "example_config =
     \<lparr>clientId = ''C1234'', clientSecret = ''s3cret'',
      redirectURI = ''http://localhost:8080/oauth'', state = ''5f2b''\<rparr>"

section \<open>Facts about the pages and the callbacks\<close>

lemma initial_state_not_empty: "random_hex \<noteq> [] \<Longrightarrow> initial_state env_STATE random_hex \<noteq> []"
  by (simp add: initial_state_def split: option.splits)


lemma token_fields_missing_iff:
  "token_fields_missing j \<longleftrightarrow>
     (\<exists>k \<in> {''access_token'', ''expires_in'', ''refresh_token'', ''refresh_token_expires_in''}.
        \<not> truthy_val (get_prop j k))"
  by (cases j) (auto simp: token_fields_missing_def js_not_def)

text \<open>
  In part_001 a reply with status 200 that lacks a field gets the page about the token
  that could not be parsed, and the callback assigns a token exactly when the status is
  200, the body is JSON and no field is missing; the store keeps it when the profile
  step sends a response.
\<close>

lemma oauth_callback_part001_missing_field:
  "token_fields_missing j \<Longrightarrow>
   oauth_callback_part001 nt sess (Response 200 (Some j)) = ([Send (Html page_could_not_parse)], sess)"
  by (simp add: oauth_callback_part001_def)

lemma oauth_callback_part001_session:
  "snd (oauth_callback_part001 nt sess r) =
     (case r of
        Response statusCode (Some j) \<Rightarrow>
          if statusCode = 200 \<and> \<not> token_fields_missing j
          then session_after sess (getUserInfo_part001 nt (get_prop j ''access_token''))
                 (sess\<lparr>token := get_prop j ''access_token''\<rparr>)
          else sess
      | _ \<Rightarrow> sess)"
  by (simp add: oauth_callback_part001_def split: reply.splits option.splits)

text \<open>
  \<^verbatim>\<open>getUserInfo\<close> of part_001 sends a page unless the reply has status 200 and a body
  that is not JSON; the one of part_000 sends one when the reply is JSON other than
  \<^verbatim>\<open>null\<close>.
\<close>

lemma getUserInfo_part001_responds:
  "nt (people_me_options tok) \<noteq> Response 200 None \<Longrightarrow>
   responses_of (getUserInfo_part001 nt tok) \<noteq> []"
  by (auto simp: getUserInfo_part001_def getUserInfo_callback_def split: reply.splits option.splits)

lemma getUserInfo_part000_responds:
  "nt (people_me_options tok) = Response status (Some p) \<Longrightarrow> p \<noteq> JNull \<Longrightarrow>
   responses_of (getUserInfo_part000 nt tok) \<noteq> []"
  by (cases p) (simp_all add: getUserInfo_part000_def)

text \<open>The statuses other than 200, when the body of a 400 is a JSON object.\<close>

lemma status_not_200_cases:
  "status_not_200 400 (Some (JObj kvs)) =
     [Send (Html (page_bad_request (str_of (get_prop (JObj kvs) ''message''))))]"
  "status_not_200 401 body = [Send (Html page_authentication_error)]"
  "statusCode \<noteq> 400 \<Longrightarrow> statusCode \<noteq> 401 \<Longrightarrow>
     status_not_200 statusCode body = [Send (Html page_no_access_token)]"
  by (simp_all add: status_not_200_def bad_request_case_def)

text \<open>
  In server.js every callback that passes the first two checks ends at the comparison
  with the undeclared \<^verbatim>\<open>state\<close>.
\<close>

lemma oauth_server_reference_error:
  "\<not> truthy_param (query_error q) \<Longrightarrow> truthy_param (query_code q) \<Longrightarrow>
   truthy_param (query_state q) \<Longrightarrow> oauth_server cfg nt q = [Throw ReferenceError]"
  by (cases "query_code q") (simp_all add: oauth_server_def state_server_def param_not_def)

text \<open>
  In part_000 and part_001 a callback whose \<^verbatim>\<open>state\<close> is not loosely equal to the
  expected one sends no request and leaves the session as it was; when the two earlier
  checks pass, it gets the page of the state mismatch.
\<close>

lemma oauth_state_check:
  assumes "\<not> loose_eq (query_state q) (state cfg)"
  shows "requests_of (fst (oauth_part001 cfg nt q sess)) = []"
    and "snd (oauth_part001 cfg nt q sess) = sess"
    and "requests_of (fst (oauth_part000 cfg nt q sess)) = []"
    and "snd (oauth_part000 cfg nt q sess) = sess"
    and "\<not> truthy_param (query_error q) \<Longrightarrow> truthy_param (query_code q) \<Longrightarrow>
         truthy_param (query_state q) \<Longrightarrow>
         oauth_part001 cfg nt q sess = ([Send (Html page_state_mismatch)], sess)
         \<and> oauth_part000 cfg nt q sess = ([Send (Html page_state_mismatch)], sess)"
  using assms
  by (auto simp: oauth_part001_def oauth_part000_def param_not_def split: option.splits)

text \<open>
  A callback that passes the three checks makes part_001 and part_000 send, first of
  all, the POST to the token endpoint with the five fields of the form; with a complete
  reply, the store holds the access token once the profile step has sent a response.
\<close>

lemma oauth_exchange_request:
  assumes "\<not> truthy_param (query_error q)"
    and "query_code q = Some c" and "truthy_q c"
    and "truthy_param (query_state q)" and "loose_eq (query_state q) (state cfg)"
  shows "oauth_part001 cfg nt q sess =
      (Request (access_token_options cfg c)
         # fst (oauth_callback_part001 nt sess (nt (access_token_options cfg c))),
       snd (oauth_callback_part001 nt sess (nt (access_token_options cfg c))))"
    and "oauth_part000 cfg nt q sess =
      (Request (access_token_fetch cfg c)
         # fst (oauth_response_part000 nt sess (nt (access_token_fetch cfg c))),
       snd (oauth_response_part000 nt sess (nt (access_token_fetch cfg c))))"
  using assms
  by (simp_all add: oauth_part001_def oauth_part000_def param_not_def split: prod.splits)

lemma oauth_part001_binds_when_answered:
  assumes "\<not> truthy_param (query_error q)"
    and "query_code q = Some c" and "truthy_q c"
    and "truthy_param (query_state q)" and "loose_eq (query_state q) (state cfg)"
    and "nt (access_token_options cfg c) = Response 200 (Some j)"
    and "\<not> token_fields_missing j"
    and "nt (people_me_options (get_prop j ''access_token'')) \<noteq> Response 200 None"
  shows "snd (oauth_part001 cfg nt q sess) = sess\<lparr>token := get_prop j ''access_token''\<rparr>"
  using assms(6,7,8) getUserInfo_part001_responds [of nt "get_prop j ''access_token''"]
  by (simp add: oauth_exchange_request(1) [OF assms(1-5)] oauth_callback_part001_def
      session_after_def)

lemma oauth_part000_binds_when_answered:
  assumes "\<not> truthy_param (query_error q)"
    and "query_code q = Some c" and "truthy_q c"
    and "truthy_param (query_state q)" and "loose_eq (query_state q) (state cfg)"
    and "nt (access_token_fetch cfg c) = Response status (Some j)"
    and "get_prop j ''access_token'' = Some t"
    and "nt (people_me_options (Some t)) = Response status' (Some p)" and "p \<noteq> JNull"
  shows "snd (oauth_part000 cfg nt q sess) = sess\<lparr>token := Some t\<rparr>"
proof -
  have "member j ''access_token'' = Inr (Some t)"
    using assms(7) by (cases j) simp_all
  then show ?thesis
    using assms(6,8,9) getUserInfo_part000_responds [of nt "Some t" status' p]
    by (simp add: oauth_exchange_request(2) [OF assms(1-5)] oauth_response_part000_def
        session_after_def)
qed

lemma root_of_example:
  "substring ''http://localhost:8080/oauth'' 0 (int (length ''http://localhost:8080/oauth'') - 5)
     = ''http://localhost:8080/''"
  by (simp add: substring_def)

lemma encode_root:
  "encodeURIComponent ''http://localhost:8080/'' = ''http%3A%2F%2Flocalhost%3A8080%2F''"
  by (simp add: encodeURIComponent_def encode_unit_def unreserved_def percent_def)

section \<open>The state check\<close>

text \<open>
  C1. server.js compares the parameter with an identifier \<^verbatim>\<open>state\<close> that it declares
  nowhere: at \<^verbatim>\<open>?code=abc123&state=0000\<close>, a state that differs from the expected
  one, the handler ends in a ReferenceError and sends no page of a state mismatch. In
  part_001 the comparison is the loose \<^verbatim>\<open>!=\<close>: at \<^verbatim>\<open>?code=abc123&state[]=5f2b\<close> the
  parameter is an array, not the expected string, and the POST to the token endpoint
  goes out.
\<close>

theorem C1_server_state_undeclared:
  "oauth_server example_config (provider Failed Failed)
     \<lparr>query_error = None, query_code = Some (QStr ''abc123''), query_state = Some (QStr ''0000'')\<rparr>
   = [Throw ReferenceError]
   \<and> query_state \<lparr>query_error = None, query_code = Some (QStr ''abc123''),
                  query_state = Some (QArr [QStr ''5f2b''])\<rparr> \<noteq> Some (QStr (state example_config))
   \<and> requests_of (fst (oauth_part001 example_config (provider Failed Failed)
        \<lparr>query_error = None, query_code = Some (QStr ''abc123''),
         query_state = Some (QArr [QStr ''5f2b''])\<rparr>
        \<lparr>token = None\<rparr>))
     = [access_token_options example_config (QStr ''abc123'')]"
  by (simp add: oauth_server_def state_server_def oauth_part001_def oauth_callback_part001_def
      param_not_def provider_def example_config_def access_token_options_def)

section \<open>The token response\<close>

text \<open>
  C2. part_000 reads no field but \<^verbatim>\<open>access_token\<close>: at a reply with status 200 whose
  body is \<^verbatim>\<open>{"access_token":"T1"}\<close>, three fields short, it binds T1 to the session and
  goes on to the profile request.
\<close>

theorem C2_part000_binds_incomplete_bundle:
  "oauth_part000 example_config
     (provider (Response 200 (Some (JObj [(''access_token'', JStr ''T1'')])))
               (Response 200 (Some (JObj [(''displayName'', JStr ''Ada'')]))))
     \<lparr>query_error = None, query_code = Some (QStr ''abc123''), query_state = Some (QStr ''5f2b'')\<rparr>
     \<lparr>token = None\<rparr>
   = ([Request (access_token_fetch example_config (QStr ''abc123'')),
       ConsoleLog [Some (JObj [(''access_token'', JStr ''T1'')])],
       Request (people_me_options (Some (JStr ''T1''))),
       Send (Template ''/www/display-name.ejs'' [(''displayName'', Some (JStr ''Ada''))])],
      \<lparr>token = Some (JStr ''T1'')\<rparr>)"
  by (simp add: oauth_part000_def oauth_response_part000_def getUserInfo_part000_def
      provider_def example_config_def param_not_def access_token_fetch_def people_me_options_def
      session_after_def)

text \<open>
  C3. The provider returns the complete bundle of the specification (T1, R1 and their
  lifetimes, status 200), and the profile request that follows fails (part_000) or is
  answered with status 200 and a body that is not JSON (part_001). The exception leaves
  the handler, no response is sent, and the session is never written back: afterwards
  it holds no token.
\<close>

theorem C3_profile_throw_loses_token:
  "oauth_part000 example_config (provider (Response 200 (Some (JObj [(''access_token'', JStr ''T1''), (''expires_in'', JNum ''1209600''),
               (''refresh_token'', JStr ''R1''), (''refresh_token_expires_in'', JNum ''7776000'')]))) Failed)
     \<lparr>query_error = None, query_code = Some (QStr ''abc123''), query_state = Some (QStr ''5f2b'')\<rparr>
     \<lparr>token = None\<rparr>
   = ([Request (access_token_fetch example_config (QStr ''abc123'')),
       ConsoleLog [Some (JObj [(''access_token'', JStr ''T1''), (''expires_in'', JNum ''1209600''),
               (''refresh_token'', JStr ''R1''), (''refresh_token_expires_in'', JNum ''7776000'')])],
       Request (people_me_options (Some (JStr ''T1''))),
       Throw FetchError],
      \<lparr>token = None\<rparr>)
   \<and> oauth_part001 example_config
       (provider (Response 200 (Some (JObj [(''access_token'', JStr ''T1''), (''expires_in'', JNum ''1209600''),
               (''refresh_token'', JStr ''R1''), (''refresh_token_expires_in'', JNum ''7776000'')]))) (Response 200 None))
     \<lparr>query_error = None, query_code = Some (QStr ''abc123''), query_state = Some (QStr ''5f2b'')\<rparr>
     \<lparr>token = None\<rparr>
   = ([Request (access_token_options example_config (QStr ''abc123'')),
       Request (people_me_options (Some (JStr ''T1''))),
       Throw SyntaxError],
      \<lparr>token = None\<rparr>)"
  by (simp add: oauth_part000_def oauth_response_part000_def getUserInfo_part000_def
      oauth_part001_def oauth_callback_part001_def getUserInfo_part001_def getUserInfo_callback_def
      token_fields_missing_def js_not_def
      provider_def example_config_def param_not_def access_token_fetch_def access_token_options_def
      people_me_options_def session_after_def)

text \<open>
  C5. In part_001 a token reply whose body is not JSON leaves the callback as a
  SyntaxError that nothing catches, with status 200 and with status 400 alike: no page
  is sent.
\<close>

theorem C5_unparseable_body_throws:
  "oauth_part001 example_config (provider (Response 200 None) Failed)
     \<lparr>query_error = None, query_code = Some (QStr ''abc123''), query_state = Some (QStr ''5f2b'')\<rparr>
     \<lparr>token = None\<rparr>
   = ([Request (access_token_options example_config (QStr ''abc123'')), Throw SyntaxError],
      \<lparr>token = None\<rparr>)
   \<and> oauth_part001 example_config (provider (Response 400 None) Failed)
     \<lparr>query_error = None, query_code = Some (QStr ''abc123''), query_state = Some (QStr ''5f2b'')\<rparr>
     \<lparr>token = None\<rparr>
   = ([Request (access_token_options example_config (QStr ''abc123'')), Throw SyntaxError],
      \<lparr>token = None\<rparr>)"
  by (simp add: oauth_part001_def oauth_callback_part001_def status_not_200_def bad_request_case_def
      provider_def example_config_def param_not_def access_token_options_def)



section \<open>The error parameter\<close>




section \<open>The rooms, the logout and the home page\<close>

text \<open>
  C6. With no token in the session, part_000 sends the text \<^verbatim>\<open>/\<close> (no redirect) and
  part_001 only logs; both then send the request for the rooms with the header
  \<^verbatim>\<open>Bearer undefined\<close>. part_001 renders the reply; in part_000 the second
  \<^verbatim>\<open>res.send\<close> raises \<^verbatim>\<open>ERR_HTTP_HEADERS_SENT\<close>.
\<close>

theorem C6_listrooms_without_token:
  "listrooms_part000 (provider Failed (Response 200 (Some (JObj [(''items'', JArr [])]))))
     \<lparr>token = None\<rparr>
   = [ConsoleLog [Some (JStr ''Access token not in session variable, redirecting to home page.'')],
      Send (Html ''/''),
      Request \<lparr>http_method = ''GET'', url = ''https://webexapis.com/v1/rooms'',
               headers = [(''authorization'', ''Bearer undefined'')], form = None\<rparr>,
      ConsoleLog [Some (JObj [(''items'', JArr [])])],
      Throw HeadersSent]
   \<and> listrooms_part001 (provider Failed (Response 200 (Some (JObj [(''items'', JArr [])]))))
     \<lparr>token = None\<rparr>
   = [ConsoleLog [Some (JStr ''session token available: ''), None],
      Request \<lparr>http_method = ''GET'', url = ''https://webexapis.com/v1/rooms'',
               headers = [(''authorization'', ''Bearer undefined'')], form = None\<rparr>,
      ConsoleLog [Some (JObj [(''items'', JArr [])])],
      Send (Template ''/www/list-rooms.ejs'' [(''rooms'', Some (JArr []))])]"
  by (simp add: listrooms_part000_def listrooms_part001_def listrooms_callback_def rooms_options_def
      provider_def js_not_def)

text \<open>
  C7. With the token T1 and the redirect URI \<^verbatim>\<open>http://localhost:8080/oauth\<close>, the
  handlers of \<^verbatim>\<open>/logout\<close> redirect to a URL with the token and no \<^verbatim>\<open>goto\<close>: the root
  URL is logged only. \<^verbatim>\<open>getLogoutURL\<close> of server.js, which no handler calls, builds
  the URL with both.
\<close>

theorem C7_logout_redirect_without_goto:
  "logout_part001 example_config \<lparr>token = Some (JStr ''T1'')\<rparr>
   = ([ConsoleLog [Some (JStr ''rootURL is http://localhost:8080/'')],
       Redirect ''https://idbroker.webex.com/idb/oauth2/v1/logout?token=T1'',
       Destroy], None)
   \<and> logout_part000 example_config \<lparr>token = Some (JStr ''T1'')\<rparr>
   = ([ConsoleLog [Some (JStr ''rootURL is http://localhost:8080/'')],
       Redirect ''https://idbroker.webex.com/idb/oauth2/v1/logout?token=T1'',
       Destroy], None)
   \<and> getLogoutURL (Some (JStr ''T1'')) ''http://localhost:8080/oauth''
   = ''https://idbroker.webex.com/idb/oauth2/v1/logout?goto=http%3A%2F%2Flocalhost%3A8080%2F&token=T1''"
  by (simp add: logout_part001_def logout_part000_def getLogoutURL_def example_config_def
      root_of_example [simplified] encode_root)

text \<open>
  C9, as amended. \<^verbatim>\<open>GET /index.html\<close> answers with the page compiled once from the
  template of the index and the authorization URL, whatever the session holds (in
  part_000 the token only decides what is logged); \<^verbatim>\<open>GET /\<close> answers with a redirect
  to \<^verbatim>\<open>/index.html\<close>.
\<close>

theorem C9_home_page:
  "responses_of (index_html_part000 cfg sess) = [Send (compiled_part000 cfg)]
   \<and> responses_of (index_html_part001 cfg sess) = [Send (compiled_part001 cfg)]
   \<and> compiled_part000 cfg
       = Template ''/www/index.ejs'' [(''link'', Some (JStr (initiateURL_part000 cfg)))]
   \<and> compiled_part001 cfg
       = Template ''/www/index.ejs'' [(''link'', Some (JStr (initiateURL_part001 cfg)))]
   \<and> root_part000 cfg sess = [Redirect ''/index.html'']
   \<and> root_part001 cfg sess = [Redirect ''/index.html'']"
  by (simp add: index_html_part000_def index_html_part001_def root_part000_def root_part001_def
      compiled_part000_def compiled_part001_def)

theorem C9_home_page_witness:
  "responses_of (index_html_part000 example_config \<lparr>token = Some (JStr ''T1'')\<rparr>)
     = responses_of (index_html_part000 example_config \<lparr>token = None\<rparr>)
   \<and> index_html_part000 example_config \<lparr>token = Some (JStr ''T1'')\<rparr>
     \<noteq> index_html_part000 example_config \<lparr>token = None\<rparr>"
  using C9_home_page [of example_config "\<lparr>token = Some (JStr ''T1'')\<rparr>"]
    C9_home_page [of example_config "\<lparr>token = None\<rparr>"]
  by (simp add: index_html_part000_def)

text \<open>The answer to \<^verbatim>\<open>GET /\<close> is a redirect, not the compiled page.\<close>

theorem C9_root_counterexample:
  "responses_of (root_part001 example_config \<lparr>token = None\<rparr>) = [Redirect ''/index.html'']
   \<and> responses_of (root_part001 example_config \<lparr>token = None\<rparr>)
       \<noteq> [Send (compiled_part001 example_config)]
   \<and> responses_of (root_part000 example_config \<lparr>token = None\<rparr>)
       \<noteq> [Send (compiled_part000 example_config)]"
  by (simp add: root_part001_def root_part000_def)

text \<open>
  C10. The handlers of \<^verbatim>\<open>/logout\<close> append the session's token to the redirect URL as
  it is converted to a string, with no encoding: a string token stands there itself, and
  with no token the URL ends in \<^verbatim>\<open>token=undefined\<close>. The session is destroyed in
  every case. \<^verbatim>\<open>getLogoutURL\<close> appends the token in the same way.
\<close>

theorem C10_logout_token:
  "fst (logout_part000 cfg sess) =
     [ConsoleLog [Some (JStr (''rootURL is ''
        @ substring (redirectURI cfg) 0 (int (length (redirectURI cfg)) - 5)))],
      Redirect (''https://idbroker.webex.com/idb/oauth2/v1/logout?token='' @ str_of (token sess)),
      Destroy]
   \<and> fst (logout_part001 cfg sess) = fst (logout_part000 cfg sess)
   \<and> snd (logout_part000 cfg sess) = None
   \<and> snd (logout_part001 cfg sess) = None
   \<and> str_of (Some (JStr t)) = t
   \<and> str_of None = ''undefined''
   \<and> getLogoutURL (token sess) r =
       ''https://idbroker.webex.com/idb/oauth2/v1/logout?goto=''
         @ encodeURIComponent (substring r 0 (int (length r) - 5))
         @ ''&token='' @ str_of (token sess)"
  by (simp add: logout_part000_def logout_part001_def getLogoutURL_def Let_def)

theorem C10_logout_token_witness:
  "fst (logout_part001 example_config \<lparr>token = Some (JStr ''a b&c=d'')\<rparr>) =
     [ConsoleLog [Some (JStr ''rootURL is http://localhost:8080/'')],
      Redirect ''https://idbroker.webex.com/idb/oauth2/v1/logout?token=a b&c=d'',
      Destroy]
   \<and> fst (logout_part001 example_config \<lparr>token = None\<rparr>) =
     [ConsoleLog [Some (JStr ''rootURL is http://localhost:8080/'')],
      Redirect ''https://idbroker.webex.com/idb/oauth2/v1/logout?token=undefined'',
      Destroy]
   \<and> snd (logout_part001 example_config \<lparr>token = None\<rparr>) = None"
  using C10_logout_token [of example_config "\<lparr>token = Some (JStr ''a b&c=d'')\<rparr>"]
    C10_logout_token [of example_config "\<lparr>token = None\<rparr>"]
  by (simp add: example_config_def root_of_example [simplified])

end
